theory Spec2Isabelle
  imports Complex_Main "HOL-Library.List_Lexorder" "HOL-Library.Char_ord" "HOL-Library.Product_Lexorder"
begin

section \<open>Staffing optimisation: the cost model, the staffing search and the forecaster\<close>

text \<open>
  The development embeds \<^verbatim>\<open>src/forecast_model.py\<close>. Python floats are read as real
  numbers (the decimal constants of the source are exact rationals), Python integers as
  \<open>int\<close>, and every exception the embedded code can raise is a value of \<open>error\<close>.
\<close>

subsection \<open>Numbers, dates and errors\<close>

datatype error = IndexError | TypeError

text \<open>\<^verbatim>\<open>int(x)\<close> on a float truncates towards zero.\<close>

definition py_int :: "real \<Rightarrow> int" where
  "py_int x = (if 0 \<le> x then \<lfloor>x\<rfloor> else \<lceil>x\<rceil>)"

text \<open>
  A date is represented by the values of the accessors the program reads: the proleptic
  Gregorian ordinal (from which \<^verbatim>\<open>weekday()\<close> is computed, Monday being 0), the ISO
  week \<^verbatim>\<open>isocalendar()[1]\<close> and the month.
\<close>

record date =
  toordinal :: int
  isoweek :: int
  month :: int

definition weekday :: "date \<Rightarrow> nat" where
  "weekday d = nat ((toordinal d + 6) mod 7)"

text \<open>The date of the test suite's cost scenario, Thursday 2024-02-01.\<close>

definition thursday :: date where
  "thursday = \<lparr> toordinal = 738917, isoweek = 5, month = 2 \<rparr>"

subsection \<open>Configuration\<close>

record StaffingConfig =
  REGULAR_RATE :: real
  OVERTIME_RATE :: real
  TEMP_RATE :: real
  MIN_STAFF_PER_SHIFT :: int
  MAX_STAFF_PER_SHIFT :: int
  BREAK_COVERAGE_FACTOR :: real
  TARGET_SERVICE_LEVEL :: real
  UNDERSTAFFING_PENALTY :: real
  SKILL_REQUIREMENTS :: "(string \<times> real) list"
  ABSENTEEISM_RATES :: "real list"

text \<open>The class attributes of \<^verbatim>\<open>StaffingConfig\<close>, which an instance reads unless overridden.\<close>

definition StaffingConfig_defaults :: StaffingConfig where
  "StaffingConfig_defaults =
    \<lparr> REGULAR_RATE = 18.50,
      OVERTIME_RATE = 27.75,
      TEMP_RATE = 22.00,
      MIN_STAFF_PER_SHIFT = 2,
      MAX_STAFF_PER_SHIFT = 25,
      BREAK_COVERAGE_FACTOR = 0.2,
      TARGET_SERVICE_LEVEL = 0.98,
      UNDERSTAFFING_PENALTY = 150,
      SKILL_REQUIREMENTS =
        [(''forklift_certified'', 0.30), (''hazmat_trained'', 0.15),
         (''team_leads'', 0.10), (''experienced'', 0.60)],
      ABSENTEEISM_RATES = [0.08, 0.06, 0.07, 0.09, 0.12, 0.15, 0.18] \<rparr>"

subsection \<open>Cost model\<close>

record CostBreakdown =
  total_cost :: real
  regular_cost :: real
  overtime_cost :: real
  understaffing_cost :: real
  skills_penalty :: int
  overtime_hours :: real
  service_level :: real
  capacity_utilization :: real

definition productivity_rates :: "(string \<times> real) list" where
  "productivity_rates = [(''E-commerce'', 18), (''B2B'', 22), (''Express'', 12)]"

text \<open>\<^verbatim>\<open>productivity_rates.get(order_type, 18)\<close>\<close>

definition base_productivity_of :: "string \<Rightarrow> real" where
  "base_productivity_of order_type =
    (case map_of productivity_rates order_type of Some v \<Rightarrow> v | None \<Rightarrow> 18)"

text \<open>One iteration of the loop over \<^verbatim>\<open>SKILL_REQUIREMENTS.items()\<close>.\<close>

definition skill_step :: "int \<Rightarrow> string \<times> real \<Rightarrow> int \<Rightarrow> int" where
  "skill_step staff_count item penalty =
    (let required_pct = snd item;
         required_count = max 1 (py_int (of_int staff_count * required_pct));
         available_count = max 1 (py_int (of_int staff_count * 0.6))
     in if available_count < required_count
        then penalty + (required_count - available_count) * 50
        else penalty)"

definition calculate_skills_penalty :: "StaffingConfig \<Rightarrow> int \<Rightarrow> int" where
  "calculate_skills_penalty config staff_count =
    fold (skill_step staff_count) (SKILL_REQUIREMENTS config) 0"

text \<open>
  The capacity of the scheduled staff before overtime (the local \<^verbatim>\<open>total_capacity\<close> of
  \<^verbatim>\<open>calculate_total_cost\<close>), as a function of its own, for use in statements. It is
  meaningful where the weekday indexes \<^verbatim>\<open>ABSENTEEISM_RATES\<close>.
\<close>

definition total_capacity_of :: "StaffingConfig \<Rightarrow> int \<Rightarrow> string \<Rightarrow> date \<Rightarrow> real" where
  "total_capacity_of config staff_count order_type date =
    of_int staff_count * (1 - ABSENTEEISM_RATES config ! weekday date)
      * (1 - BREAK_COVERAGE_FACTOR config) * base_productivity_of order_type"

definition calculate_total_cost ::
  "StaffingConfig \<Rightarrow> int \<Rightarrow> real \<Rightarrow> string \<Rightarrow> date \<Rightarrow> string \<Rightarrow> error + CostBreakdown" where
  "calculate_total_cost config staff_count forecast_volume order_type date shift =
    (let base_productivity = base_productivity_of order_type;
         day_of_week = weekday date
     in if length (ABSENTEEISM_RATES config) \<le> day_of_week then Inl IndexError
        else
          let absenteeism_rate = ABSENTEEISM_RATES config ! day_of_week;
              effective_staff = of_int staff_count * (1 - absenteeism_rate);
              productive_staff = effective_staff * (1 - BREAK_COVERAGE_FACTOR config);
              total_capacity = productive_staff * base_productivity;
              regular_hours = staff_count * 8;
              regular_cost = of_int regular_hours * REGULAR_RATE config;
              (overtime_hours, overtime_cost) =
                (if forecast_volume > total_capacity
                 then let shortage = forecast_volume - total_capacity;
                          overtime_hours = min (of_int (staff_count * 4)) (shortage / base_productivity)
                      in (overtime_hours, overtime_hours * OVERTIME_RATE config)
                 else (0, 0));
              final_capacity = total_capacity + overtime_hours * base_productivity;
              understaffing_cost =
                (if forecast_volume > final_capacity
                 then (forecast_volume - final_capacity) * UNDERSTAFFING_PENALTY config
                 else 0);
              skills_penalty = calculate_skills_penalty config staff_count;
              total_cost = regular_cost + overtime_cost + understaffing_cost + of_int skills_penalty
          in Inr \<lparr> total_cost = total_cost,
                   regular_cost = regular_cost,
                   overtime_cost = overtime_cost,
                   understaffing_cost = understaffing_cost,
                   skills_penalty = skills_penalty,
                   overtime_hours = overtime_hours,
                   service_level =
                     (if forecast_volume > 0 then min 1 (final_capacity / forecast_volume) else 1),
                   capacity_utilization =
                     (if final_capacity > 0 then forecast_volume / final_capacity else 0) \<rparr>)"

subsection \<open>Staffing search\<close>

text \<open>The columns that identify a time slot, shared by historical and forecast rows.\<close>

record TimeSlot =
  Date :: date
  Shift :: string
  OrderType :: string

record ForecastRecord = TimeSlot +
  ForecastVolume :: int
  LowerBound :: int
  UpperBound :: int
  Uncertainty :: real

text \<open>The value of \<^verbatim>\<open>best_cost\<close>: \<^verbatim>\<open>float('inf')\<close> until a candidate is taken.\<close>

datatype cost_bound = Infinity | Cost real

fun below :: "real \<Rightarrow> cost_bound \<Rightarrow> bool" where
  "below x Infinity = True"
| "below x (Cost y) = (x < y)"

record search_state =
  best_staff :: int
  best_cost :: cost_bound
  best_metrics :: "CostBreakdown option"

text \<open>
  The body shared by the two \<^verbatim>\<open>for staff_count in range(...)\<close> loops of
  \<^verbatim>\<open>optimize_shift_staffing\<close>. The first loop takes a candidate only if
  \<open>accept\<close> (the service-level test) holds, the second takes every candidate; both
  then require a strictly smaller total cost. An exception raised by the cost model
  leaves the loop.
\<close>

fun scan ::
  "(CostBreakdown \<Rightarrow> bool) \<Rightarrow> (int \<Rightarrow> error + CostBreakdown) \<Rightarrow> int list \<Rightarrow> search_state
     \<Rightarrow> error + search_state" where
  "scan accept evaluate [] st = Inr st"
| "scan accept evaluate (staff_count # rest) st =
    (case evaluate staff_count of
       Inl e \<Rightarrow> Inl e
     | Inr cost_metrics \<Rightarrow>
         scan accept evaluate rest
           (if accept cost_metrics \<and> below (total_cost cost_metrics) (best_cost st)
            then \<lparr> best_staff = staff_count,
                   best_cost = Cost (total_cost cost_metrics),
                   best_metrics = Some cost_metrics \<rparr>
            else st))"

record OptimizationResult =
  OptimalStaff :: int
  TotalCost :: cost_bound
  ServiceLevel :: real
  OvertimeHours :: real
  CapacityUtilization :: real
  metrics :: CostBreakdown

text \<open>
  \<^verbatim>\<open>range(MIN_STAFF_PER_SHIFT, MAX_STAFF_PER_SHIFT + 1)\<close> is the list
  \<open>[MIN_STAFF_PER_SHIFT..MAX_STAFF_PER_SHIFT]\<close>. Subscripting \<^verbatim>\<open>best_metrics\<close>
  while it is still \<^verbatim>\<open>None\<close> raises \<^verbatim>\<open>TypeError\<close>.
\<close>

definition optimize_shift_staffing :: "StaffingConfig \<Rightarrow> ForecastRecord \<Rightarrow> error + OptimizationResult" where
  "optimize_shift_staffing config forecast_row =
    (let date = Date forecast_row;
         shift = Shift forecast_row;
         order_type = OrderType forecast_row;
         forecast_volume = ForecastVolume forecast_row;
         upper_bound = UpperBound forecast_row;
         optimization_volume = of_int upper_bound;
         evaluate = (\<lambda>staff_count.
           calculate_total_cost config staff_count optimization_volume order_type date shift);
         candidates = [MIN_STAFF_PER_SHIFT config..MAX_STAFF_PER_SHIFT config];
         start = \<lparr> best_staff = MIN_STAFF_PER_SHIFT config,
                   best_cost = Infinity,
                   best_metrics = None \<rparr>
     in case scan (\<lambda>m. service_level m \<ge> TARGET_SERVICE_LEVEL config) evaluate candidates start of
          Inl e \<Rightarrow> Inl e
        | Inr st1 \<Rightarrow>
           (case (if best_metrics st1 = None
                  then scan (\<lambda>m. True) evaluate candidates st1
                  else Inr st1) of
              Inl e \<Rightarrow> Inl e
            | Inr st2 \<Rightarrow>
               (case best_metrics st2 of
                  None \<Rightarrow> Inl TypeError
                | Some m \<Rightarrow>
                    Inr \<lparr> OptimalStaff = best_staff st2,
                          TotalCost = best_cost st2,
                          ServiceLevel = service_level m,
                          OvertimeHours = overtime_hours m,
                          CapacityUtilization = capacity_utilization m,
                          metrics = m \<rparr>)))"

text \<open>
  The cost-model call the search makes for a candidate staff count: the demand is the
  record's \<^verbatim>\<open>UpperBound\<close>.
\<close>

definition candidate_cost :: "StaffingConfig \<Rightarrow> ForecastRecord \<Rightarrow> int \<Rightarrow> error + CostBreakdown" where
  "candidate_cost config forecast_row staff_count =
    calculate_total_cost config staff_count (of_int (UpperBound forecast_row))
      (OrderType forecast_row) (Date forecast_row) (Shift forecast_row)"

text \<open>A candidate is feasible when its evaluation reaches the target service level.\<close>

definition feasible :: "StaffingConfig \<Rightarrow> ForecastRecord \<Rightarrow> int \<Rightarrow> bool" where
  "feasible config forecast_row staff_count =
    (case candidate_cost config forecast_row staff_count of
       Inl e \<Rightarrow> False
     | Inr m \<Rightarrow> service_level m \<ge> TARGET_SERVICE_LEVEL config)"

text \<open>
  The loop invariant of \<open>scan\<close> after the candidates \<open>seen\<close>, where \<open>f\<close> gives the
  breakdown of each candidate: nothing taken and no acceptable candidate seen, or the
  taken candidate is an acceptable one of least cost, and the first such.
\<close>

definition scan_inv ::
  "(CostBreakdown \<Rightarrow> bool) \<Rightarrow> (int \<Rightarrow> CostBreakdown) \<Rightarrow> int list \<Rightarrow> search_state \<Rightarrow> bool" where
  "scan_inv accept f seen st =
    (case best_metrics st of
       None \<Rightarrow> best_cost st = Infinity \<and> (\<forall>s \<in> set seen. \<not> accept (f s))
     | Some m \<Rightarrow>
         best_staff st \<in> set seen \<and> m = f (best_staff st) \<and> accept m
         \<and> best_cost st = Cost (total_cost m)
         \<and> (\<forall>s \<in> set seen. accept (f s) \<longrightarrow>
               total_cost m \<le> total_cost (f s)
               \<and> (total_cost (f s) = total_cost m \<longrightarrow> best_staff st \<le> s)))"

text \<open>
  The state before the first loop, and the dictionary returned from the final state
  (a \<^verbatim>\<open>TypeError\<close> when \<^verbatim>\<open>best_metrics\<close> is still \<^verbatim>\<open>None\<close>), named for
  use in the proofs.
\<close>

definition start_state :: "StaffingConfig \<Rightarrow> search_state" where
  "start_state config = \<lparr> best_staff = MIN_STAFF_PER_SHIFT config, best_cost = Infinity, best_metrics = None \<rparr>"

definition result_of :: "search_state \<Rightarrow> error + OptimizationResult" where
  "result_of st = (case best_metrics st of
                  None \<Rightarrow> Inl TypeError
                | Some m \<Rightarrow>
                    Inr \<lparr> OptimalStaff = best_staff st,
                          TotalCost = best_cost st,
                          ServiceLevel = service_level m,
                          OvertimeHours = overtime_hours m,
                          CapacityUtilization = capacity_utilization m,
                          metrics = m \<rparr>)"

text \<open>
  Forecast records for Thursday 2024-02-01, morning shift, e-commerce orders, with a point
  forecast of 150 (bounds at 85 and 115 per cent, as the test fixtures build them) and with
  a demand no staff count within the configured bounds can serve.
\<close>

definition scenario_row :: ForecastRecord where
  "scenario_row =
    \<lparr> Date = thursday, Shift = ''Morning'', OrderType = ''E-commerce'',
      ForecastVolume = 150, LowerBound = 127, UpperBound = 172, Uncertainty = 22.5 \<rparr>"

definition overload_row :: ForecastRecord where
  "overload_row =
    \<lparr> Date = thursday, Shift = ''Morning'', OrderType = ''E-commerce'',
      ForecastVolume = 2609, LowerBound = 2217, UpperBound = 3000, Uncertainty = 391.35 \<rparr>"

subsection \<open>Segment forecaster\<close>

text \<open>
  A row of the historical frame, with the columns \<^verbatim>\<open>train_models\<close> reads. The frame
  handed in is taken to have no missing value of its own, as the frames of
  \<^verbatim>\<open>generate_enhanced_historical_data\<close> have none, so that the only undefined cells
  are those \<^verbatim>\<open>prepare_features\<close> creates.
\<close>

record HistoricalObservation = TimeSlot +
  OrderVolume :: int
  SeasonalFactor :: real

text \<open>A float cell of a frame or of a feature matrix; \<open>None\<close> is \<^verbatim>\<open>NaN\<close>.\<close>

type_synonym cell = "real option"


definition segment_of :: "'a TimeSlot_scheme \<Rightarrow> string \<times> string" where
  "segment_of r = (Shift r, OrderType r)"


text \<open>\<^verbatim>\<open>rolling(7).mean()\<close> over the volumes of one segment: undefined for its first six rows.\<close>

definition rolling_mean7 :: "int list \<Rightarrow> cell list" where
  "rolling_mean7 vs =
    map (\<lambda>j. if j < 6 then None else Some (of_int (sum_list (take 7 (drop (j - 6) vs))) / 7))
      [0..<length vs]"

text \<open>The group keys in the order \<^verbatim>\<open>groupby\<close> visits them: sorted, each once.\<close>

definition group_keys :: "'a TimeSlot_scheme list \<Rightarrow> (string \<times> string) list" where
  "group_keys df = sort (remdups (map segment_of df))"

definition group_rows :: "'a TimeSlot_scheme list \<Rightarrow> string \<times> string \<Rightarrow> 'a TimeSlot_scheme list" where
  "group_rows df k = filter (\<lambda>r. segment_of r = k) df"

text \<open>
  \<^verbatim>\<open>df.groupby([...])['OrderVolume'].rolling(7).mean().values\<close>: the rolling means segment
  by segment, in the order of the sorted keys, as a bare array; the assignment writes it
  back to the frame by position.
\<close>

definition rolling_values :: "HistoricalObservation list \<Rightarrow> cell list" where
  "rolling_values df =
    concat (map (\<lambda>k. rolling_mean7 (map OrderVolume (group_rows df k))) (group_keys df))"





text \<open>
  A fitted regressor, as far as the program uses it: its \<^verbatim>\<open>predict\<close> on one feature
  vector and its \<^verbatim>\<open>feature_importances_\<close>. The fitting routine of the library
  (\<^verbatim>\<open>RandomForestRegressor(...).fit\<close>, deterministic by its fixed seed) is a parameter
  \<open>fit\<close> of \<open>train_models\<close>.
\<close>

record regressor =
  predict :: "cell list \<Rightarrow> real"
  feature_importances :: "real list"

record AdvancedForecaster =
  models :: "string \<times> string \<rightharpoonup> regressor"
  feature_importance :: "string \<times> string \<rightharpoonup> (string \<times> real) list"





text \<open>The feature vector \<^verbatim>\<open>forecast_demand\<close> builds for a date; lag and moving average are 0.\<close>

definition forecast_feature_vector :: "date \<Rightarrow> cell list" where
  "forecast_feature_vector date =
    (let week = isoweek date;
         seasonal_factor = 1.0 + 0.3 * sin (2 * pi * of_int week / 52)
     in [Some (of_nat (weekday date)), Some (of_int week), Some (of_int (month date)),
         Some (if weekday date \<ge> 5 then 1 else 0), Some 0, Some 0,
         Some (sin (2 * pi * of_int week / 52)), Some (cos (2 * pi * of_int week / 52)),
         Some seasonal_factor])"

text \<open>The record appended for one date, shift and order type with a trained model.\<close>

definition forecast_record :: "regressor \<Rightarrow> date \<Rightarrow> string \<Rightarrow> string \<Rightarrow> ForecastRecord" where
  "forecast_record model date shift order_type =
    (let feature_vector = forecast_feature_vector date;
         prediction = predict model feature_vector;
         uncertainty = prediction * 0.15
     in \<lparr> Date = date, Shift = shift, OrderType = order_type,
          ForecastVolume = max 0 (py_int prediction),
          LowerBound = max 0 (py_int (prediction - uncertainty)),
          UpperBound = max 0 (py_int (prediction + uncertainty)),
          Uncertainty = uncertainty \<rparr>)"

definition forecast_demand ::
  "AdvancedForecaster \<Rightarrow> date list \<Rightarrow> string list \<Rightarrow> string list \<Rightarrow> ForecastRecord list" where
  "forecast_demand self forecast_dates shifts order_types =
    concat (map (\<lambda>date.
      concat (map (\<lambda>shift.
        concat (map (\<lambda>order_type.
          (case models self (shift, order_type) of
             None \<Rightarrow> []
           | Some model \<Rightarrow> [forecast_record model date shift order_type]))
          order_types))
        shifts))
      forecast_dates)"

text \<open>
  Sample data: a regressor that predicts the same volume for every feature vector, a
  forecaster holding one for the morning e-commerce segment, and \<open>n\<close> consecutive daily
  observations of that segment from Monday 2024-01-01 on.
\<close>

definition constant_regressor :: "real \<Rightarrow> regressor" where
  "constant_regressor p = \<lparr> predict = (\<lambda>x. p), feature_importances = replicate 9 (1 / 9) \<rparr>"

definition sample_forecaster :: AdvancedForecaster where
  "sample_forecaster =
    \<lparr> models = [(''Morning'', ''E-commerce'') \<mapsto> constant_regressor 10.5],
      feature_importance = Map.empty \<rparr>"


text \<open>The record \<open>sample_forecaster\<close> emits for Thursday 2024-02-01.\<close>

definition sample_record :: ForecastRecord where
  "sample_record =
    \<lparr> Date = thursday, Shift = ''Morning'', OrderType = ''E-commerce'',
      ForecastVolume = 10, LowerBound = 8, UpperBound = 12, Uncertainty = 1.575 \<rparr>"


subsection \<open>Construction\<close>

text \<open>
  \<^verbatim>\<open>StaffingConfig\<close> has class attributes only, no \<^verbatim>\<open>__init__\<close> and no validator, so
  every value of the record type above is a configuration the program can be given. The
  constructor of \<^verbatim>\<open>CostOptimizer\<close> stores the configuration as it is
  (\<^verbatim>\<open>self.config = config\<close>).
\<close>

record CostOptimizer =
  self_config :: StaffingConfig

definition CostOptimizer_init :: "StaffingConfig \<Rightarrow> error + CostOptimizer" where
  "CostOptimizer_init c = Inr \<lparr> self_config = c \<rparr>"

text \<open>Configurations with inverted staff bounds and with zero and negative rates.\<close>

definition inverted_config :: StaffingConfig where
  "inverted_config = StaffingConfig_defaults \<lparr> MIN_STAFF_PER_SHIFT := 26 \<rparr>"

definition zero_rates_config :: StaffingConfig where
  "zero_rates_config =
    StaffingConfig_defaults \<lparr> REGULAR_RATE := 0, OVERTIME_RATE := 0, UNDERSTAFFING_PENALTY := 0 \<rparr>"

definition negative_rates_config :: StaffingConfig where
  "negative_rates_config =
    StaffingConfig_defaults \<lparr> REGULAR_RATE := - 18.50, OVERTIME_RATE := - 27.75 \<rparr>"

section \<open>Properties\<close>

subsection \<open>Cost model\<close>

lemma weekday_less_7: "weekday d < 7"
  by (simp add: weekday_def)



text \<open>The cost model raises only when the weekday is no index of the absenteeism table.\<close>

lemma calculate_total_cost_returns:
  "weekday date < length (ABSENTEEISM_RATES config) \<Longrightarrow>
   \<exists>m. calculate_total_cost config s fv ot date sh = Inr m"
  by (simp add: calculate_total_cost_def Let_def split: prod.splits)

lemma calculate_total_cost_Inr_D:
  assumes "calculate_total_cost config s fv ot date sh = Inr m"
  shows "weekday date < length (ABSENTEEISM_RATES config)"
  using assms by (simp add: calculate_total_cost_def Let_def split: if_splits)

lemma calculate_total_cost_raises:
  "length (ABSENTEEISM_RATES config) \<le> weekday date \<Longrightarrow>
   calculate_total_cost config s fv ot date sh = Inl IndexError"
  by (simp add: calculate_total_cost_def Let_def)

lemma default_rates_length: "length (ABSENTEEISM_RATES StaffingConfig_defaults) = 7"
  by (simp add: StaffingConfig_defaults_def)

lemma calculate_total_cost_default_returns:
  "\<exists>m. calculate_total_cost StaffingConfig_defaults s fv ot date sh = Inr m"
  by (rule calculate_total_cost_returns) (simp add: default_rates_length weekday_less_7)

lemma calculate_total_cost_fields:
  assumes "calculate_total_cost config s fv ot d sh = Inr m"
  shows "regular_cost m = of_int s * 8 * REGULAR_RATE config"
    and "overtime_hours m =
          (if fv > total_capacity_of config s ot d
           then min (of_int s * 4) ((fv - total_capacity_of config s ot d) / base_productivity_of ot)
           else 0)"
    and "overtime_cost m =
          (if fv > total_capacity_of config s ot d then overtime_hours m * OVERTIME_RATE config else 0)"
    and "understaffing_cost m =
          (if fv > total_capacity_of config s ot d + overtime_hours m * base_productivity_of ot
           then (fv - (total_capacity_of config s ot d + overtime_hours m * base_productivity_of ot))
                  * UNDERSTAFFING_PENALTY config
           else 0)"
    and "skills_penalty m = calculate_skills_penalty config s"
    and "total_cost m =
          regular_cost m + overtime_cost m + understaffing_cost m + of_int (skills_penalty m)"
    and "service_level m =
          (if fv > 0
           then min 1 ((total_capacity_of config s ot d + overtime_hours m * base_productivity_of ot) / fv)
           else 1)"
    and "capacity_utilization m =
          (if total_capacity_of config s ot d + overtime_hours m * base_productivity_of ot > 0
           then fv / (total_capacity_of config s ot d + overtime_hours m * base_productivity_of ot)
           else 0)"
  using assms
  by (auto simp add: calculate_total_cost_def total_capacity_of_def Let_def split: if_splits)


text \<open>Truncation towards zero is monotone.\<close>

lemma py_int_mono: "x \<le> y \<Longrightarrow> py_int x \<le> py_int y"
  unfolding py_int_def
  by (auto intro: floor_mono ceiling_mono)
     (meson ceiling_le_zero floor_mono order_trans zero_le_floor less_eq_real_def not_le)+

lemma py_int_nonpos: "x \<le> 0 \<Longrightarrow> py_int x \<le> 0"
  using py_int_mono [of x 0] by (simp add: py_int_def)

text \<open>
  A skill whose required fraction is at most the assumed 60 per cent availability never
  adds to the penalty: its required head count is at most the available one.
\<close>

lemma required_le_available:
  assumes "0 \<le> f" "f \<le> a"
  shows "max 1 (py_int (of_int s * f)) \<le> max 1 (py_int (of_int s * a))"
proof (cases "0 \<le> s")
  case True
  then have "of_int s * f \<le> of_int s * a"
    using assms(2) by (intro mult_left_mono) simp_all
  then have "py_int (of_int s * f) \<le> py_int (of_int s * a)"
    by (rule py_int_mono)
  then show ?thesis by linarith
next
  case False
  then have "of_int s * f \<le> 0" using assms(1) by (simp add: mult_le_0_iff)
  then have "py_int (of_int s * f) \<le> 0" by (rule py_int_nonpos)
  then show ?thesis by simp
qed

lemma skill_step_no_shortage:
  assumes "0 \<le> f" "f \<le> 0.6"
  shows "skill_step s (skill, f) penalty = penalty"
proof -
  have "\<not> max 1 (py_int (of_int s * 0.6)) < max 1 (py_int (of_int s * f))"
    using required_le_available [OF assms, of s] by (simp only: not_less)
  then show ?thesis
    unfolding skill_step_def Let_def snd_conv by (simp only: if_False)
qed

lemma calculate_skills_penalty_default: "calculate_skills_penalty StaffingConfig_defaults s = 0"
  by (simp add: calculate_skills_penalty_def StaffingConfig_defaults_def skill_step_no_shortage)

text \<open>
  Claim C3. The breakdown returned by \<open>calculate_total_cost\<close> has as its total cost the
  sum of regular cost, overtime cost, understaffing cost and skills penalty, and as its
  service level the realised capacity (regular capacity plus the overtime hours worked at
  the base productivity) over the forecast volume, capped at 1, when the volume is
  positive, and 1 otherwise. This holds for every staff count and volume, in particular for
  positive staff counts and non-negative volumes.
\<close>

theorem cost_breakdown_total_and_service_level:
  assumes "calculate_total_cost config staff_count forecast_volume order_type date shift = Inr m"
  shows "total_cost m =
           regular_cost m + overtime_cost m + understaffing_cost m + of_int (skills_penalty m)
       \<and> service_level m =
           (if forecast_volume > 0
            then min 1 ((total_capacity_of config staff_count order_type date
                          + overtime_hours m * base_productivity_of order_type) / forecast_volume)
            else 1)"
  using calculate_total_cost_fields(6,7) [OF assms] by simp

text \<open>
  Claim C7. The regular cost is \<open>staff_count * 8 * REGULAR_RATE\<close>, whatever the
  absenteeism table holds; above the regular capacity the overtime hours are the shortage
  over the base productivity, capped at four hours per person, and they are paid at the
  overtime rate; otherwise overtime hours and overtime cost are 0.
\<close>

theorem regular_and_overtime_cost:
  assumes "calculate_total_cost config staff_count forecast_volume order_type date shift = Inr m"
    and "calculate_total_cost (config\<lparr>ABSENTEEISM_RATES := rates\<rparr>)
           staff_count forecast_volume order_type date shift = Inr m'"
  shows "regular_cost m = of_int staff_count * 8 * REGULAR_RATE config
       \<and> regular_cost m' = regular_cost m
       \<and> (if forecast_volume > total_capacity_of config staff_count order_type date
          then overtime_hours m =
                 min (of_int staff_count * 4)
                   ((forecast_volume - total_capacity_of config staff_count order_type date)
                      / base_productivity_of order_type)
             \<and> overtime_cost m = overtime_hours m * OVERTIME_RATE config
          else overtime_hours m = 0 \<and> overtime_cost m = 0)"
  using calculate_total_cost_fields(1,2,3) [OF assms(1)] calculate_total_cost_fields(1) [OF assms(2)]
  by simp




text \<open>
  Claim C10. With the configured skill fractions (0.30, 0.15, 0.10, 0.60) and the fixed
  60 per cent availability, the skills penalty is 0 for every staff count, and every
  breakdown the cost model produces under this configuration has a skills penalty of 0.
\<close>

theorem default_skills_penalty_zero:
  "calculate_skills_penalty StaffingConfig_defaults staff_count = 0
   \<and> (\<exists>m. calculate_total_cost StaffingConfig_defaults staff_count forecast_volume
             order_type date shift = Inr m
          \<and> skills_penalty m = 0)"
proof -
  obtain m where m: "calculate_total_cost StaffingConfig_defaults staff_count forecast_volume
      order_type date shift = Inr m"
    using calculate_total_cost_default_returns by blast
  have "skills_penalty m = 0"
    using calculate_total_cost_fields(5) [OF m] by (simp add: calculate_skills_penalty_default)
  with m show ?thesis by (simp add: calculate_skills_penalty_default)
qed

subsection \<open>Staffing search\<close>

lemma scan_inv_step:
  assumes inv: "scan_inv accept f seen st"
    and later: "\<forall>s' \<in> set seen. s' < s"
  shows "scan_inv accept f (seen @ [s])
           (if accept (f s) \<and> below (total_cost (f s)) (best_cost st)
            then \<lparr> best_staff = s, best_cost = Cost (total_cost (f s)), best_metrics = Some (f s) \<rparr>
            else st)"
proof (cases "best_metrics st")
  case None
  then show ?thesis using inv by (auto simp: scan_inv_def)
next
  case (Some m)
  then show ?thesis using inv later by (fastforce simp: scan_inv_def)
qed

lemma scan_establishes_inv:
  assumes "sorted_wrt (<) (seen @ ss)"
    and "\<forall>s \<in> set ss. evaluate s = Inr (f s)"
    and "scan_inv accept f seen st"
  shows "\<exists>st'. scan accept evaluate ss st = Inr st' \<and> scan_inv accept f (seen @ ss) st'"
  using assms
proof (induction ss arbitrary: seen st)
  case Nil
  then show ?case by simp
next
  case (Cons s ss)
  have ev: "evaluate s = Inr (f s)" using Cons.prems(2) by simp
  have later: "\<forall>s' \<in> set seen. s' < s"
    using Cons.prems(1) by (simp add: sorted_wrt_append)
  let ?st = "if accept (f s) \<and> below (total_cost (f s)) (best_cost st)
            then \<lparr> best_staff = s, best_cost = Cost (total_cost (f s)), best_metrics = Some (f s) \<rparr>
            else st"
  have inv: "scan_inv accept f (seen @ [s]) ?st"
    using scan_inv_step [OF Cons.prems(3) later] .
  have "sorted_wrt (<) ((seen @ [s]) @ ss)" using Cons.prems(1) by simp
  moreover have "\<forall>s \<in> set ss. evaluate s = Inr (f s)" using Cons.prems(2) by simp
  ultimately obtain st' where "scan accept evaluate ss ?st = Inr st'"
      and "scan_inv accept f ((seen @ [s]) @ ss) st'"
    using Cons.IH [OF _ _ inv] by blast
  then show ?case using ev by simp
qed

lemma scan_raises:
  "evaluate s = Inl e \<Longrightarrow> scan accept evaluate (s # ss) st = Inl e"
  by simp

lemma optimize_unfold:
  "optimize_shift_staffing config row =
    (case scan (\<lambda>m. service_level m \<ge> TARGET_SERVICE_LEVEL config) (candidate_cost config row)
            [MIN_STAFF_PER_SHIFT config..MAX_STAFF_PER_SHIFT config] (start_state config) of
       Inl e \<Rightarrow> Inl e
     | Inr st1 \<Rightarrow>
        (case (if best_metrics st1 = None
               then scan (\<lambda>m. True) (candidate_cost config row)
                      [MIN_STAFF_PER_SHIFT config..MAX_STAFF_PER_SHIFT config] st1
               else Inr st1) of
           Inl e \<Rightarrow> Inl e
         | Inr st2 \<Rightarrow> result_of st2))"
  unfolding optimize_shift_staffing_def Let_def start_state_def result_of_def candidate_cost_def [abs_def]
  by (rule refl)

lemma scan_inv_start: "scan_inv accept f [] (start_state config)"
  by (simp add: scan_inv_def start_state_def)

lemma scan_inv_restart:
  "scan_inv accept f seen st \<Longrightarrow> best_metrics st = None \<Longrightarrow> scan_inv accept' f [] st"
  by (simp add: scan_inv_def)

lemma feasible_iff:
  "candidate_cost config row s = Inr m \<Longrightarrow>
   feasible config row s \<longleftrightarrow> TARGET_SERVICE_LEVEL config \<le> service_level m"
  by (simp add: feasible_def)

lemma optimize_characterisation:
  assumes bounds: "MIN_STAFF_PER_SHIFT config \<le> MAX_STAFF_PER_SHIFT config"
    and wd: "weekday (Date row) < length (ABSENTEEISM_RATES config)"
  shows "\<exists>res m. optimize_shift_staffing config row = Inr res
      \<and> candidate_cost config row (OptimalStaff res) = Inr m
      \<and> res = \<lparr> OptimalStaff = OptimalStaff res, TotalCost = Cost (total_cost m),
                 ServiceLevel = service_level m, OvertimeHours = overtime_hours m,
                 CapacityUtilization = capacity_utilization m, metrics = m \<rparr>
      \<and> OptimalStaff res \<in> {MIN_STAFF_PER_SHIFT config..MAX_STAFF_PER_SHIFT config}
      \<and> ((\<exists>s \<in> {MIN_STAFF_PER_SHIFT config..MAX_STAFF_PER_SHIFT config}. feasible config row s)
            \<longrightarrow> feasible config row (OptimalStaff res))
      \<and> (\<forall>s \<in> {MIN_STAFF_PER_SHIFT config..MAX_STAFF_PER_SHIFT config}. \<forall>m'.
            candidate_cost config row s = Inr m'
            \<and> (feasible config row s
                \<or> \<not> (\<exists>s \<in> {MIN_STAFF_PER_SHIFT config..MAX_STAFF_PER_SHIFT config}. feasible config row s))
            \<longrightarrow> total_cost m \<le> total_cost m'
                \<and> (total_cost m' = total_cost m \<longrightarrow> OptimalStaff res \<le> s))"
proof -
  let ?lo = "MIN_STAFF_PER_SHIFT config" and ?hi = "MAX_STAFF_PER_SHIFT config"
  let ?ok = "\<lambda>m. service_level m \<ge> TARGET_SERVICE_LEVEL config"
  have "\<forall>s. \<exists>m. candidate_cost config row s = Inr m"
    using calculate_total_cost_returns [OF wd] by (simp add: candidate_cost_def)
  then obtain f where f: "\<And>s. candidate_cost config row s = Inr (f s)"
    by metis
  have feas: "\<And>s. feasible config row s \<longleftrightarrow> ?ok (f s)"
    using feasible_iff [OF f] by simp
  have all: "\<forall>s \<in> set [?lo..?hi]. candidate_cost config row s = Inr (f s)"
    using f by simp
  obtain st1 where st1: "scan ?ok (candidate_cost config row) [?lo..?hi] (start_state config) = Inr st1"
      and inv1: "scan_inv ?ok f [?lo..?hi] st1"
    using scan_establishes_inv [of "[]" "[?lo..?hi]" "candidate_cost config row" f ?ok, OF _ all scan_inv_start]
    by auto
  show ?thesis
  proof (cases "best_metrics st1")
    case (Some m)
    have res: "optimize_shift_staffing config row = result_of st1"
      using st1 Some by (simp add: optimize_unfold)
    from inv1 Some have in_range: "best_staff st1 \<in> {?lo..?hi}" and m: "m = f (best_staff st1)"
      and ok: "?ok m" and cost: "best_cost st1 = Cost (total_cost m)"
      and least: "\<forall>s \<in> {?lo..?hi}. ?ok (f s) \<longrightarrow>
               total_cost m \<le> total_cost (f s)
               \<and> (total_cost (f s) = total_cost m \<longrightarrow> best_staff st1 \<le> s)"
      by (auto simp: scan_inv_def)
    have some_feasible: "feasible config row (best_staff st1)"
      using ok m feas by simp
    show ?thesis
      apply (rule exI [of _ "\<lparr> OptimalStaff = best_staff st1, TotalCost = Cost (total_cost m),
                 ServiceLevel = service_level m, OvertimeHours = overtime_hours m,
                 CapacityUtilization = capacity_utilization m, metrics = m \<rparr>"])
      apply (rule exI [of _ m])
      using res Some cost in_range m f some_feasible least feas
      by (auto simp: result_of_def)
  next
    case None
    have none_feasible: "\<forall>s \<in> {?lo..?hi}. \<not> feasible config row s"
      using inv1 None feas by (simp add: scan_inv_def)
    obtain st2 where st2: "scan (\<lambda>m. True) (candidate_cost config row) [?lo..?hi] st1 = Inr st2"
      and inv2: "scan_inv (\<lambda>m. True) f [?lo..?hi] st2"
      using scan_establishes_inv [of "[]" "[?lo..?hi]" "candidate_cost config row" f "\<lambda>m. True",
          OF _ all scan_inv_restart [OF inv1 None]]
      by auto
    have res: "optimize_shift_staffing config row = result_of st2"
      using st1 None st2 by (simp add: optimize_unfold)
    have "?lo \<in> {?lo..?hi}" using bounds by simp
    then obtain m where Some: "best_metrics st2 = Some m"
      using inv2 by (cases "best_metrics st2") (auto simp: scan_inv_def)
    from inv2 Some have in_range: "best_staff st2 \<in> {?lo..?hi}" and m: "m = f (best_staff st2)"
      and cost: "best_cost st2 = Cost (total_cost m)"
      and least: "\<forall>s \<in> {?lo..?hi}.
               total_cost m \<le> total_cost (f s)
               \<and> (total_cost (f s) = total_cost m \<longrightarrow> best_staff st2 \<le> s)"
      by (auto simp: scan_inv_def)
    show ?thesis
      apply (rule exI [of _ "\<lparr> OptimalStaff = best_staff st2, TotalCost = Cost (total_cost m),
                 ServiceLevel = service_level m, OvertimeHours = overtime_hours m,
                 CapacityUtilization = capacity_utilization m, metrics = m \<rparr>"])
      apply (rule exI [of _ m])
      using res Some cost in_range m f none_feasible least
      by (auto simp: result_of_def)
  qed
qed

lemma optimize_Inr_D:
  assumes "optimize_shift_staffing config row = Inr res"
  shows "MIN_STAFF_PER_SHIFT config \<le> MAX_STAFF_PER_SHIFT config
       \<and> weekday (Date row) < length (ABSENTEEISM_RATES config)"
proof (rule ccontr)
  assume neg: "\<not> ?thesis"
  show False
  proof (cases "MIN_STAFF_PER_SHIFT config \<le> MAX_STAFF_PER_SHIFT config")
    case False
    then have "[MIN_STAFF_PER_SHIFT config..MAX_STAFF_PER_SHIFT config] = []" by simp
    then have "optimize_shift_staffing config row = Inl TypeError"
      by (simp add: optimize_unfold start_state_def result_of_def)
    with assms show False by simp
  next
    case True
    with neg have "length (ABSENTEEISM_RATES config) \<le> weekday (Date row)" by simp
    then have "candidate_cost config row (MIN_STAFF_PER_SHIFT config) = Inl IndexError"
      by (simp add: candidate_cost_def calculate_total_cost_raises)
    then have "optimize_shift_staffing config row = Inl IndexError"
      using True by (simp add: optimize_unfold upto_rec1 [OF True])
    with assms show False by simp
  qed
qed

subsection \<open>The cost model and the search on concrete records\<close>

lemmas scenario_defs = candidate_cost_def calculate_total_cost_def weekday_def thursday_def
  StaffingConfig_defaults_def base_productivity_of_def productivity_rates_def Let_def
  calculate_skills_penalty_def skill_step_def py_int_def scenario_row_def overload_row_def

lemma scenario_candidate_2:
  "calculate_total_cost StaffingConfig_defaults 2 172 ''E-commerce'' thursday ''Morning'' =
     Inr \<lparr> total_cost = 3934 / 5, regular_cost = 296,
          overtime_cost = 222, understaffing_cost = 1344 / 5,
          skills_penalty = 0, overtime_hours = 8,
          service_level = 5319 / 5375, capacity_utilization = 5375 / 5319 \<rparr>"
  by (simp add: scenario_defs)

lemma scenario_candidate_3:
  "calculate_total_cost StaffingConfig_defaults 3 172 ''E-commerce'' thursday ''Morning'' =
     Inr \<lparr> total_cost = 972841 / 1500, regular_cost = 444,
          overtime_cost = 306841 / 1500, understaffing_cost = 0,
          skills_penalty = 0, overtime_hours = 8293 / 1125,
          service_level = 1, capacity_utilization = 1 \<rparr>"
  by (simp add: scenario_defs)

lemma scenario_candidate_3_other_rates:
  "calculate_total_cost (StaffingConfig_defaults\<lparr>ABSENTEEISM_RATES := [0, 0, 0, 0.5, 0, 0, 0]\<rparr>)
      3 172 ''E-commerce'' thursday ''Morning'' =
     Inr \<lparr> total_cost = 10138 / 15, regular_cost = 444,
          overtime_cost = 3478 / 15, understaffing_cost = 0,
          skills_penalty = 0, overtime_hours = 376 / 45,
          service_level = 1, capacity_utilization = 1 \<rparr>"
  by (simp add: scenario_defs)

lemma scenario_optimum:
  "optimize_shift_staffing StaffingConfig_defaults scenario_row =
     Inr \<lparr> OptimalStaff = 3, TotalCost = Cost (972841 / 1500), ServiceLevel = 1,
          OvertimeHours = 8293 / 1125, CapacityUtilization = 1,
          metrics =
            \<lparr> total_cost = 972841 / 1500, regular_cost = 444,
              overtime_cost = 306841 / 1500, understaffing_cost = 0,
              skills_penalty = 0, overtime_hours = 8293 / 1125,
              service_level = 1, capacity_utilization = 1 \<rparr> \<rparr>"
  by (simp add: optimize_unfold start_state_def result_of_def scenario_defs)

lemma overload_optimum:
  "optimize_shift_staffing StaffingConfig_defaults overload_row =
     Inr \<lparr> OptimalStaff = 25, TotalCost = Cost 137335,
          ServiceLevel = 1773 / 2500, OvertimeHours = 100,
          CapacityUtilization = 2500 / 1773,
          metrics =
            \<lparr> total_cost = 137335, regular_cost = 3700, overtime_cost = 2775,
              understaffing_cost = 130860, skills_penalty = 0,
              overtime_hours = 100, service_level = 1773 / 2500,
              capacity_utilization = 2500 / 1773 \<rparr> \<rparr>"
  by (simp add: optimize_unfold start_state_def result_of_def scenario_defs)

lemma overload_infeasible: "\<forall>s \<in> {2..25}. \<not> feasible StaffingConfig_defaults overload_row s"
proof -
  have "\<forall>s \<in> set [2..25]. \<not> feasible StaffingConfig_defaults overload_row s"
    by (simp add: feasible_def scenario_defs)
  then show ?thesis by (simp only: set_upto)
qed

theorem cost_breakdown_total_and_service_level_witness:
  "\<exists>m. calculate_total_cost StaffingConfig_defaults 2 172 ''E-commerce'' thursday ''Morning'' = Inr m
     \<and> total_cost m = 3934 / 5
     \<and> total_cost m = regular_cost m + overtime_cost m + understaffing_cost m + of_int (skills_penalty m)
     \<and> service_level m = 5319 / 5375
     \<and> service_level m =
         min 1 ((total_capacity_of StaffingConfig_defaults 2 ''E-commerce'' thursday
                  + overtime_hours m * base_productivity_of ''E-commerce'') / 172)"
  using cost_breakdown_total_and_service_level [OF scenario_candidate_2] scenario_candidate_2
  by simp

theorem regular_and_overtime_cost_witness:
  "\<exists>m m'. calculate_total_cost StaffingConfig_defaults 3 172 ''E-commerce'' thursday ''Morning'' = Inr m
     \<and> calculate_total_cost (StaffingConfig_defaults\<lparr>ABSENTEEISM_RATES := [0, 0, 0, 0.5, 0, 0, 0]\<rparr>)
          3 172 ''E-commerce'' thursday ''Morning'' = Inr m'
     \<and> regular_cost m = 3 * 8 * REGULAR_RATE StaffingConfig_defaults
     \<and> regular_cost m' = regular_cost m
     \<and> 172 > total_capacity_of StaffingConfig_defaults 3 ''E-commerce'' thursday
     \<and> overtime_hours m =
         min (3 * 4) ((172 - total_capacity_of StaffingConfig_defaults 3 ''E-commerce'' thursday)
                        / base_productivity_of ''E-commerce'')
     \<and> overtime_cost m = overtime_hours m * OVERTIME_RATE StaffingConfig_defaults"
proof -
  have "(172 :: real) > total_capacity_of StaffingConfig_defaults 3 ''E-commerce'' thursday"
    by (simp add: total_capacity_of_def scenario_defs)
  then show ?thesis
    using regular_and_overtime_cost [OF scenario_candidate_3 scenario_candidate_3_other_rates]
      scenario_candidate_3 scenario_candidate_3_other_rates
    by simp
qed


text \<open>
  Claim C1. If some staff count within the configured bounds, evaluated by the cost model
  at the record's upper bound, reaches the target service level, then
  \<open>optimize_shift_staffing\<close> returns a result whose service level reaches the target.
  This holds for every configuration, the default one included.
\<close>

theorem feasible_candidate_gives_target_service_level:
  assumes "MIN_STAFF_PER_SHIFT config \<le> staff_count"
    and "staff_count \<le> MAX_STAFF_PER_SHIFT config"
    and "calculate_total_cost config staff_count (of_int (UpperBound forecast_row))
           (OrderType forecast_row) (Date forecast_row) (Shift forecast_row) = Inr m"
    and "TARGET_SERVICE_LEVEL config \<le> service_level m"
  shows "\<exists>res. optimize_shift_staffing config forecast_row = Inr res
           \<and> TARGET_SERVICE_LEVEL config \<le> ServiceLevel res
           \<and> TARGET_SERVICE_LEVEL config \<le> service_level (metrics res)"
proof -
  have cc: "candidate_cost config forecast_row staff_count = Inr m"
    using assms(3) by (simp add: candidate_cost_def)
  have bounds: "MIN_STAFF_PER_SHIFT config \<le> MAX_STAFF_PER_SHIFT config"
    using assms(1,2) by simp
  have wd: "weekday (Date forecast_row) < length (ABSENTEEISM_RATES config)"
    using calculate_total_cost_Inr_D [OF assms(3)] .
  have "feasible config forecast_row staff_count"
    using feasible_iff [OF cc] assms(4) by simp
  then have ex: "\<exists>s \<in> {MIN_STAFF_PER_SHIFT config..MAX_STAFF_PER_SHIFT config}.
      feasible config forecast_row s"
    using assms(1,2) by auto
  from optimize_characterisation [OF bounds wd]
  obtain res m' where res: "optimize_shift_staffing config forecast_row = Inr res"
    and m': "candidate_cost config forecast_row (OptimalStaff res) = Inr m'"
    and shape: "res = \<lparr> OptimalStaff = OptimalStaff res, TotalCost = Cost (total_cost m'),
                 ServiceLevel = service_level m', OvertimeHours = overtime_hours m',
                 CapacityUtilization = capacity_utilization m', metrics = m' \<rparr>"
    and feas: "(\<exists>s \<in> {MIN_STAFF_PER_SHIFT config..MAX_STAFF_PER_SHIFT config}.
                  feasible config forecast_row s)
               \<longrightarrow> feasible config forecast_row (OptimalStaff res)"
    by blast
  have "TARGET_SERVICE_LEVEL config \<le> service_level m'"
    using feas ex feasible_iff [OF m'] by simp
  moreover have "ServiceLevel res = service_level m'" "metrics res = m'"
    by (subst shape, simp)+
  ultimately show ?thesis using res by simp
qed

theorem feasible_candidate_gives_target_service_level_witness:
  "MIN_STAFF_PER_SHIFT StaffingConfig_defaults \<le> 2
   \<and> 2 \<le> MAX_STAFF_PER_SHIFT StaffingConfig_defaults
   \<and> (\<exists>m. calculate_total_cost StaffingConfig_defaults 2 (of_int (UpperBound scenario_row))
            (OrderType scenario_row) (Date scenario_row) (Shift scenario_row) = Inr m
          \<and> TARGET_SERVICE_LEVEL StaffingConfig_defaults \<le> service_level m)
   \<and> (\<exists>res. optimize_shift_staffing StaffingConfig_defaults scenario_row = Inr res
          \<and> TARGET_SERVICE_LEVEL StaffingConfig_defaults \<le> ServiceLevel res
          \<and> TARGET_SERVICE_LEVEL StaffingConfig_defaults \<le> service_level (metrics res))"
proof -
  let ?m = "\<lparr> total_cost = 3934 / 5, regular_cost = 296,
          overtime_cost = 222, understaffing_cost = 1344 / 5,
          skills_penalty = 0, overtime_hours = 8,
          service_level = 5319 / 5375, capacity_utilization = 5375 / 5319 \<rparr>"
  have lo: "MIN_STAFF_PER_SHIFT StaffingConfig_defaults \<le> 2"
    and hi: "2 \<le> MAX_STAFF_PER_SHIFT StaffingConfig_defaults"
    by (simp_all add: StaffingConfig_defaults_def)
  have m: "calculate_total_cost StaffingConfig_defaults 2 (of_int (UpperBound scenario_row))
            (OrderType scenario_row) (Date scenario_row) (Shift scenario_row) = Inr ?m"
    using scenario_candidate_2 by (simp add: scenario_row_def)
  have t: "TARGET_SERVICE_LEVEL StaffingConfig_defaults \<le> service_level ?m"
    by (simp add: StaffingConfig_defaults_def)
  from feasible_candidate_gives_target_service_level [OF lo hi m t] lo hi m t
  show ?thesis by blast
qed

text \<open>
  Claim C2. For every configuration with \<open>MIN_STAFF_PER_SHIFT \<le> MAX_STAFF_PER_SHIFT\<close>
  and every forecast record, the \<open>OptimalStaff\<close> that \<open>optimize_shift_staffing\<close>
  returns lies between the two bounds, both included.
\<close>

theorem optimal_staff_within_bounds:
  assumes "MIN_STAFF_PER_SHIFT config \<le> MAX_STAFF_PER_SHIFT config"
    and "optimize_shift_staffing config forecast_row = Inr res"
  shows "MIN_STAFF_PER_SHIFT config \<le> OptimalStaff res
       \<and> OptimalStaff res \<le> MAX_STAFF_PER_SHIFT config"
proof -
  have wd: "weekday (Date forecast_row) < length (ABSENTEEISM_RATES config)"
    using optimize_Inr_D [OF assms(2)] by simp
  from optimize_characterisation [OF assms(1) wd] assms(2)
  show ?thesis by auto
qed

theorem optimal_staff_within_bounds_witness:
  "MIN_STAFF_PER_SHIFT StaffingConfig_defaults \<le> MAX_STAFF_PER_SHIFT StaffingConfig_defaults
   \<and> (\<exists>res. optimize_shift_staffing StaffingConfig_defaults scenario_row = Inr res
          \<and> OptimalStaff res = 3
          \<and> MIN_STAFF_PER_SHIFT StaffingConfig_defaults \<le> OptimalStaff res
          \<and> OptimalStaff res \<le> MAX_STAFF_PER_SHIFT StaffingConfig_defaults)"
proof -
  have b: "MIN_STAFF_PER_SHIFT StaffingConfig_defaults \<le> MAX_STAFF_PER_SHIFT StaffingConfig_defaults"
    by (simp add: StaffingConfig_defaults_def)
  from optimal_staff_within_bounds [OF b scenario_optimum] b scenario_optimum
  show ?thesis by simp
qed

text \<open>
  With consistent bounds and an absenteeism rate for the weekday, the search returns; it
  returns for every record under the default configuration.
\<close>

lemma optimize_returns:
  assumes "MIN_STAFF_PER_SHIFT config \<le> MAX_STAFF_PER_SHIFT config"
    and "weekday (Date forecast_row) < length (ABSENTEEISM_RATES config)"
  shows "\<exists>res. optimize_shift_staffing config forecast_row = Inr res"
  using optimize_characterisation [OF assms] by blast

lemma optimize_default_returns:
  "\<exists>res. optimize_shift_staffing StaffingConfig_defaults forecast_row = Inr res"
  by (rule optimize_returns)
     (simp_all add: default_rates_length weekday_less_7, simp add: StaffingConfig_defaults_def)

text \<open>
  Claim C5. Under the default configuration, and under every configuration with consistent
  bounds and an absenteeism rate for the weekday, \<open>optimize_shift_staffing\<close> always
  returns a result, the breakdown of a staff count within the bounds. If no staff count
  within the bounds is feasible, that staff count has the least total cost of the whole
  range and is the smallest staff count of that cost; if some staff count is feasible, it
  is a feasible one of least total cost among the feasible ones, and again the smallest
  such.
\<close>

theorem fallback_cheapest_fewest_staff:
  assumes "config = StaffingConfig_defaults
         \<or> (MIN_STAFF_PER_SHIFT config \<le> MAX_STAFF_PER_SHIFT config
             \<and> weekday (Date forecast_row) < length (ABSENTEEISM_RATES config))"
  shows "\<exists>res m. optimize_shift_staffing config forecast_row = Inr res
      \<and> MIN_STAFF_PER_SHIFT config \<le> OptimalStaff res
      \<and> OptimalStaff res \<le> MAX_STAFF_PER_SHIFT config
      \<and> candidate_cost config forecast_row (OptimalStaff res) = Inr m
      \<and> metrics res = m \<and> TotalCost res = Cost (total_cost m)
      \<and> ServiceLevel res = service_level m
      \<and> (if \<exists>s \<in> {MIN_STAFF_PER_SHIFT config..MAX_STAFF_PER_SHIFT config}.
               feasible config forecast_row s
          then feasible config forecast_row (OptimalStaff res)
             \<and> (\<forall>s \<in> {MIN_STAFF_PER_SHIFT config..MAX_STAFF_PER_SHIFT config}. \<forall>m'.
                   feasible config forecast_row s \<and> candidate_cost config forecast_row s = Inr m'
                   \<longrightarrow> total_cost m \<le> total_cost m'
                       \<and> (total_cost m' = total_cost m \<longrightarrow> OptimalStaff res \<le> s))
          else (\<forall>s \<in> {MIN_STAFF_PER_SHIFT config..MAX_STAFF_PER_SHIFT config}. \<forall>m'.
                   candidate_cost config forecast_row s = Inr m'
                   \<longrightarrow> total_cost m \<le> total_cost m'
                       \<and> (total_cost m' = total_cost m \<longrightarrow> OptimalStaff res \<le> s)))"
proof -
  let ?R = "{MIN_STAFF_PER_SHIFT config..MAX_STAFF_PER_SHIFT config}"
  have bounds: "MIN_STAFF_PER_SHIFT config \<le> MAX_STAFF_PER_SHIFT config"
    using assms by (auto simp: StaffingConfig_defaults_def)
  have wd: "weekday (Date forecast_row) < length (ABSENTEEISM_RATES config)"
    using assms by (auto simp: default_rates_length weekday_less_7)
  from optimize_characterisation [OF bounds wd]
  obtain res m where res: "optimize_shift_staffing config forecast_row = Inr res"
    and m: "candidate_cost config forecast_row (OptimalStaff res) = Inr m"
    and shape: "res = \<lparr> OptimalStaff = OptimalStaff res, TotalCost = Cost (total_cost m),
                 ServiceLevel = service_level m, OvertimeHours = overtime_hours m,
                 CapacityUtilization = capacity_utilization m, metrics = m \<rparr>"
    and range: "OptimalStaff res \<in> ?R"
    and feas: "(\<exists>s \<in> ?R. feasible config forecast_row s)
               \<longrightarrow> feasible config forecast_row (OptimalStaff res)"
    and least: "\<forall>s \<in> ?R. \<forall>m'.
            candidate_cost config forecast_row s = Inr m'
            \<and> (feasible config forecast_row s \<or> \<not> (\<exists>s \<in> ?R. feasible config forecast_row s))
            \<longrightarrow> total_cost m \<le> total_cost m'
                \<and> (total_cost m' = total_cost m \<longrightarrow> OptimalStaff res \<le> s)"
    by blast
  have fields: "metrics res = m" "TotalCost res = Cost (total_cost m)"
      "ServiceLevel res = service_level m"
    by (subst shape, simp)+
  show ?thesis
  proof (intro exI [of _ res] exI [of _ m] conjI)
    show "if \<exists>s \<in> ?R. feasible config forecast_row s
          then feasible config forecast_row (OptimalStaff res)
             \<and> (\<forall>s \<in> ?R. \<forall>m'.
                   feasible config forecast_row s \<and> candidate_cost config forecast_row s = Inr m'
                   \<longrightarrow> total_cost m \<le> total_cost m'
                       \<and> (total_cost m' = total_cost m \<longrightarrow> OptimalStaff res \<le> s))
          else (\<forall>s \<in> ?R. \<forall>m'.
                   candidate_cost config forecast_row s = Inr m'
                   \<longrightarrow> total_cost m \<le> total_cost m'
                       \<and> (total_cost m' = total_cost m \<longrightarrow> OptimalStaff res \<le> s))"
    proof (cases "\<exists>s \<in> ?R. feasible config forecast_row s")
      case True
      then show ?thesis using feas least by simp
    next
      case False
      then show ?thesis using least by simp
    qed
  qed (use res m range fields in simp_all)
qed

theorem fallback_cheapest_fewest_staff_witness:
  "\<not> (\<exists>s \<in> {MIN_STAFF_PER_SHIFT StaffingConfig_defaults..MAX_STAFF_PER_SHIFT StaffingConfig_defaults}.
           feasible StaffingConfig_defaults overload_row s)
   \<and> (\<exists>res m. optimize_shift_staffing StaffingConfig_defaults overload_row = Inr res
         \<and> OptimalStaff res = 25 \<and> ServiceLevel res = 1773 / 2500
         \<and> candidate_cost StaffingConfig_defaults overload_row 25 = Inr m
         \<and> total_cost m = 137335
         \<and> (\<forall>s \<in> {2..25}. \<forall>m'.
               candidate_cost StaffingConfig_defaults overload_row s = Inr m'
               \<longrightarrow> total_cost m \<le> total_cost m' \<and> (total_cost m' = total_cost m \<longrightarrow> 25 \<le> s)))"
proof -
  have R: "{MIN_STAFF_PER_SHIFT StaffingConfig_defaults..MAX_STAFF_PER_SHIFT StaffingConfig_defaults} = {2..25}"
    by (simp add: StaffingConfig_defaults_def)
  have none: "\<not> (\<exists>s \<in> {2..25}. feasible StaffingConfig_defaults overload_row s)"
    using overload_infeasible by simp
  from fallback_cheapest_fewest_staff [of StaffingConfig_defaults overload_row]
  show ?thesis
    unfolding R using none by (auto simp: overload_optimum)
qed

text \<open>
  Ties go to the fewest staff: when labour costs nothing every candidate costs the same,
  and the search returns the smallest feasible staff count.
\<close>

lemma zero_rates_optimum:
  "\<exists>res. optimize_shift_staffing zero_rates_config scenario_row = Inr res
     \<and> OptimalStaff res = 2 \<and> TotalCost res = Cost 0"
  by (simp add: optimize_unfold start_state_def result_of_def zero_rates_config_def scenario_defs)

subsection \<open>Segment forecaster\<close>

text \<open>
  The array of rolling means has one cell for each row of the frame, so the positional
  assignment in \<open>prepare_features\<close> reads inside it.
\<close>

lemma length_rolling_mean7: "length (rolling_mean7 vs) = length vs"
  by (simp add: rolling_mean7_def)

lemma sum_list_indicator:
  assumes "distinct ks" "a \<in> set ks"
  shows "sum_list (map (\<lambda>k. if a = k then 1 else 0) ks) = (1::nat)"
  using assms by (induction ks) auto

lemma sum_length_groups:
  assumes "distinct ks" "f ` set xs \<subseteq> set ks"
  shows "sum_list (map (\<lambda>k. length (filter (\<lambda>r. f r = k) xs)) ks) = length xs"
  using assms(2)
proof (induction xs)
  case Nil
  then show ?case by simp
next
  case (Cons x xs)
  have "sum_list (map (\<lambda>k. length (filter (\<lambda>r. f r = k) (x # xs))) ks)
      = sum_list (map (\<lambda>k. (if f x = k then 1 else 0) + length (filter (\<lambda>r. f r = k) xs)) ks)"
    by (intro arg_cong [where f = sum_list] map_cong) auto
  also have "\<dots> = sum_list (map (\<lambda>k. if f x = k then 1 else 0) ks)
                  + sum_list (map (\<lambda>k. length (filter (\<lambda>r. f r = k) xs)) ks)"
    by (simp add: sum_list_addf)
  also have "\<dots> = 1 + length xs"
    using Cons sum_list_indicator [OF assms(1), of "f x"] by simp
  finally show ?case by simp
qed

lemma length_rolling_values: "length (rolling_values df) = length df"
proof -
  have "length (rolling_values df)
      = sum_list (map (\<lambda>k. length (filter (\<lambda>r. segment_of r = k) df)) (group_keys df))"
    by (simp add: rolling_values_def length_concat comp_def length_rolling_mean7 group_rows_def)
  also have "\<dots> = length df"
    by (rule sum_length_groups) (simp_all add: group_keys_def)
  finally show ?thesis .
qed










text \<open>Every record of a forecast comes from the model of its segment.\<close>

lemma forecast_demand_member:
  assumes "r \<in> set (forecast_demand self forecast_dates shifts order_types)"
  shows "\<exists>model. models self (Shift r, OrderType r) = Some model
           \<and> r = forecast_record model (Date r) (Shift r) (OrderType r)"
proof -
  from assms obtain d sh ot where
    "r \<in> set (case models self (sh, ot) of None \<Rightarrow> []
              | Some model \<Rightarrow> [forecast_record model d sh ot])"
    by (auto simp: forecast_demand_def)
  then obtain model where m: "models self (sh, ot) = Some model"
    and r: "r = forecast_record model d sh ot"
    by (cases "models self (sh, ot)") auto
  have "Date r = d" "Shift r = sh" "OrderType r = ot"
    using r by (simp_all add: forecast_record_def Let_def)
  then show ?thesis using m r by auto
qed

lemma forecast_record_ordered:
  "0 \<le> LowerBound (forecast_record model d sh ot)
   \<and> LowerBound (forecast_record model d sh ot) \<le> ForecastVolume (forecast_record model d sh ot)
   \<and> ForecastVolume (forecast_record model d sh ot) \<le> UpperBound (forecast_record model d sh ot)"
proof -
  define p where "p = predict model (forecast_feature_vector d)"
  have fields: "LowerBound (forecast_record model d sh ot) = max 0 (py_int (p - p * 0.15))"
    "ForecastVolume (forecast_record model d sh ot) = max 0 (py_int p)"
    "UpperBound (forecast_record model d sh ot) = max 0 (py_int (p + p * 0.15))"
    by (simp_all add: forecast_record_def Let_def p_def)
  show ?thesis
  proof (cases "0 \<le> p")
    case True
    then have "p - p * 0.15 \<le> p" "p \<le> p + p * 0.15" by simp_all
    then have "py_int (p - p * 0.15) \<le> py_int p" "py_int p \<le> py_int (p + p * 0.15)"
      by (simp_all only: py_int_mono)
    then show ?thesis unfolding fields by linarith
  next
    case False
    then have "p \<le> 0" "p - p * 0.15 \<le> 0" "p + p * 0.15 \<le> 0" by simp_all
    then have "py_int p \<le> 0" "py_int (p - p * 0.15) \<le> 0" "py_int (p + p * 0.15) \<le> 0"
      by (simp_all only: py_int_nonpos)
    then show ?thesis unfolding fields by linarith
  qed
qed

lemma sample_forecast:
  "forecast_demand sample_forecaster [thursday] [''Morning''] [''E-commerce''] = [sample_record]"
  by (simp add: forecast_demand_def sample_forecaster_def constant_regressor_def
        forecast_record_def sample_record_def py_int_def Let_def)

text \<open>
  Claim C6, as stated, fails: the uncertainty is 15 per cent of the model's prediction, not
  of the record's \<open>ForecastVolume\<close> (the prediction truncated to an integer), and the
  bounds are truncations of prediction minus and plus uncertainty. For a prediction of
  10.5 the record has volume 10, uncertainty 1.575 (not 1.5), lower bound 8 and upper
  bound 12, while volume plus uncertainty is 11.575.
\<close>

theorem forecast_uncertainty_counterexample:
  "forecast_demand sample_forecaster [thursday] [''Morning''] [''E-commerce''] = [sample_record]
   \<and> Uncertainty sample_record \<noteq> 0.15 * of_int (ForecastVolume sample_record)
   \<and> of_int (LowerBound sample_record)
        \<noteq> max 0 (of_int (ForecastVolume sample_record) - Uncertainty sample_record)
   \<and> of_int (UpperBound sample_record)
        \<noteq> max 0 (of_int (ForecastVolume sample_record) + Uncertainty sample_record)
   \<and> UpperBound sample_record
        \<noteq> max 0 (py_int (of_int (ForecastVolume sample_record) + Uncertainty sample_record))"
  by (simp add: sample_forecast) (simp add: sample_record_def py_int_def)

text \<open>
  Claim C6, amended. Every record emitted by \<open>forecast_demand\<close> comes from the model of
  its segment and satisfies \<open>0 \<le> LowerBound \<le> ForecastVolume \<le> UpperBound\<close>, with
  \<open>Uncertainty\<close> equal to 0.15 times the model's prediction, \<open>ForecastVolume\<close> the
  prediction truncated to an integer and floored at 0, and \<open>LowerBound\<close> and
  \<open>UpperBound\<close> the prediction minus and plus the uncertainty, truncated to an integer
  and floored at 0.
\<close>

theorem forecast_record_bounds_and_uncertainty:
  assumes "r \<in> set (forecast_demand self forecast_dates shifts order_types)"
  shows "\<exists>model. models self (Shift r, OrderType r) = Some model
      \<and> Uncertainty r = 0.15 * predict model (forecast_feature_vector (Date r))
      \<and> ForecastVolume r = max 0 (py_int (predict model (forecast_feature_vector (Date r))))
      \<and> LowerBound r =
          max 0 (py_int (predict model (forecast_feature_vector (Date r)) - Uncertainty r))
      \<and> UpperBound r =
          max 0 (py_int (predict model (forecast_feature_vector (Date r)) + Uncertainty r))
      \<and> 0 \<le> LowerBound r \<and> LowerBound r \<le> ForecastVolume r \<and> ForecastVolume r \<le> UpperBound r"
proof -
  from forecast_demand_member [OF assms]
  obtain model where model: "models self (Shift r, OrderType r) = Some model"
    and r: "r = forecast_record model (Date r) (Shift r) (OrderType r)"
    by blast
  have "Uncertainty (forecast_record model (Date r) (Shift r) (OrderType r))
          = 0.15 * predict model (forecast_feature_vector (Date r))"
    and "ForecastVolume (forecast_record model (Date r) (Shift r) (OrderType r))
          = max 0 (py_int (predict model (forecast_feature_vector (Date r))))"
    and "LowerBound (forecast_record model (Date r) (Shift r) (OrderType r))
          = max 0 (py_int (predict model (forecast_feature_vector (Date r))
                     - Uncertainty (forecast_record model (Date r) (Shift r) (OrderType r))))"
    and "UpperBound (forecast_record model (Date r) (Shift r) (OrderType r))
          = max 0 (py_int (predict model (forecast_feature_vector (Date r))
                     + Uncertainty (forecast_record model (Date r) (Shift r) (OrderType r))))"
    by (simp_all add: forecast_record_def Let_def)
  with forecast_record_ordered [of model "Date r" "Shift r" "OrderType r"] model r
  show ?thesis by metis
qed

theorem forecast_record_bounds_and_uncertainty_witness:
  "sample_record \<in> set (forecast_demand sample_forecaster [thursday] [''Morning''] [''E-commerce''])
   \<and> (\<exists>model. models sample_forecaster (Shift sample_record, OrderType sample_record) = Some model
      \<and> predict model (forecast_feature_vector (Date sample_record)) = 10.5
      \<and> Uncertainty sample_record = 0.15 * predict model (forecast_feature_vector (Date sample_record))
      \<and> ForecastVolume sample_record = max 0 (py_int (predict model (forecast_feature_vector (Date sample_record))))
      \<and> LowerBound sample_record =
          max 0 (py_int (predict model (forecast_feature_vector (Date sample_record)) - Uncertainty sample_record))
      \<and> UpperBound sample_record =
          max 0 (py_int (predict model (forecast_feature_vector (Date sample_record)) + Uncertainty sample_record))
      \<and> 0 \<le> LowerBound sample_record \<and> LowerBound sample_record \<le> ForecastVolume sample_record
      \<and> ForecastVolume sample_record \<le> UpperBound sample_record)"
proof -
  have mem: "sample_record \<in> set (forecast_demand sample_forecaster [thursday] [''Morning''] [''E-commerce''])"
    by (simp add: sample_forecast)
  have key: "(Shift sample_record, OrderType sample_record) = (''Morning'', ''E-commerce'')"
    by (simp add: sample_record_def)
  from forecast_record_bounds_and_uncertainty [OF mem]
  show ?thesis
    using mem unfolding key
    by (auto simp: sample_forecaster_def constant_regressor_def)
qed

subsection \<open>Configuration is not validated\<close>

lemma inverted_bounds_raise:
  assumes "MAX_STAFF_PER_SHIFT config < MIN_STAFF_PER_SHIFT config"
  shows "optimize_shift_staffing config forecast_row = Inl TypeError"
proof -
  have "[MIN_STAFF_PER_SHIFT config..MAX_STAFF_PER_SHIFT config] = []" using assms by simp
  then show ?thesis
    by (simp add: optimize_unfold start_state_def result_of_def)
qed

lemma inverted_optimum:
  "optimize_shift_staffing inverted_config scenario_row = Inl TypeError"
  by (simp add: optimize_unfold start_state_def result_of_def inverted_config_def StaffingConfig_defaults_def)

lemma negative_rates_optimum:
  "\<exists>res. optimize_shift_staffing negative_rates_config scenario_row = Inr res
     \<and> OptimalStaff res = 25 \<and> TotalCost res = Cost (- 3700)"
  by (simp add: optimize_unfold start_state_def result_of_def negative_rates_config_def scenario_defs)

text \<open>
  Claim C9, as stated, fails: nothing rejects a configuration with inverted staff bounds
  when it is built or handed to the optimizer; the failure appears in the search, as a
  \<^verbatim>\<open>TypeError\<close>.
\<close>

theorem eager_validation_counterexample:
  "MAX_STAFF_PER_SHIFT inverted_config < MIN_STAFF_PER_SHIFT inverted_config
   \<and> CostOptimizer_init inverted_config = Inr \<lparr> self_config = inverted_config \<rparr>
   \<and> optimize_shift_staffing inverted_config scenario_row = Inl TypeError"
  by (simp add: inverted_optimum CostOptimizer_init_def)
     (simp add: inverted_config_def StaffingConfig_defaults_def)

text \<open>
  Claim C9, amended. No configuration is rejected at construction time: the optimizer
  stores whatever configuration it is given. Inverted staff bounds surface only in the
  search, which then raises \<^verbatim>\<open>TypeError\<close> for every forecast record. Rates are never
  checked: whatever the regular rate, the overtime rate and the understaffing penalty are
  (zero and negative values included), the search returns a result as soon as the bounds
  are consistent and the weekday has an absenteeism rate.
\<close>

theorem configuration_accepted_unchecked:
  "CostOptimizer_init config = Inr \<lparr> self_config = config \<rparr>
   \<and> (MAX_STAFF_PER_SHIFT config < MIN_STAFF_PER_SHIFT config
        \<longrightarrow> optimize_shift_staffing config forecast_row = Inl TypeError)
   \<and> (MIN_STAFF_PER_SHIFT config \<le> MAX_STAFF_PER_SHIFT config
        \<and> weekday (Date forecast_row) < length (ABSENTEEISM_RATES config)
        \<longrightarrow> (\<exists>res. optimize_shift_staffing
                     (config\<lparr> REGULAR_RATE := regular, OVERTIME_RATE := overtime,
                              UNDERSTAFFING_PENALTY := penalty \<rparr>) forecast_row = Inr res))"
proof (intro conjI impI)
  show "CostOptimizer_init config = Inr \<lparr> self_config = config \<rparr>"
    by (simp add: CostOptimizer_init_def)
next
  assume "MAX_STAFF_PER_SHIFT config < MIN_STAFF_PER_SHIFT config"
  then show "optimize_shift_staffing config forecast_row = Inl TypeError"
    by (rule inverted_bounds_raise)
next
  assume "MIN_STAFF_PER_SHIFT config \<le> MAX_STAFF_PER_SHIFT config
        \<and> weekday (Date forecast_row) < length (ABSENTEEISM_RATES config)"
  then show "\<exists>res. optimize_shift_staffing
                     (config\<lparr> REGULAR_RATE := regular, OVERTIME_RATE := overtime,
                              UNDERSTAFFING_PENALTY := penalty \<rparr>) forecast_row = Inr res"
    by (intro optimize_returns) simp_all
qed

theorem configuration_accepted_unchecked_witness:
  "CostOptimizer_init inverted_config = Inr \<lparr> self_config = inverted_config \<rparr>
   \<and> MAX_STAFF_PER_SHIFT inverted_config < MIN_STAFF_PER_SHIFT inverted_config
   \<and> optimize_shift_staffing inverted_config scenario_row = Inl TypeError
   \<and> MIN_STAFF_PER_SHIFT StaffingConfig_defaults \<le> MAX_STAFF_PER_SHIFT StaffingConfig_defaults
   \<and> weekday (Date scenario_row) < length (ABSENTEEISM_RATES StaffingConfig_defaults)
   \<and> (\<exists>res. optimize_shift_staffing
               (StaffingConfig_defaults\<lparr> REGULAR_RATE := 0, OVERTIME_RATE := - 27.75,
                                         UNDERSTAFFING_PENALTY := 0 \<rparr>) scenario_row = Inr res)"
proof -
  have inv: "MAX_STAFF_PER_SHIFT inverted_config < MIN_STAFF_PER_SHIFT inverted_config"
    by (simp add: inverted_config_def StaffingConfig_defaults_def)
  have ok: "MIN_STAFF_PER_SHIFT StaffingConfig_defaults \<le> MAX_STAFF_PER_SHIFT StaffingConfig_defaults
      \<and> weekday (Date scenario_row) < length (ABSENTEEISM_RATES StaffingConfig_defaults)"
    by (simp add: default_rates_length weekday_less_7) (simp add: StaffingConfig_defaults_def)
  show ?thesis
    using configuration_accepted_unchecked [of inverted_config scenario_row]
      configuration_accepted_unchecked [of StaffingConfig_defaults scenario_row 0 "- 27.75" 0]
      inv ok
    by blast
qed

end
